theory Spec2Isabelle
  imports Main "HOL-Library.AList" "HOL-Library.Sublist"
begin

section \<open>Values and strings\<close>

text \<open>
  The store keeps values of TypeScript type \<open>any\<close>; the data model restricts them to
  JSON-serializable values (numbers, strings, booleans, nested objects/arrays, null).
  A JavaScript \<open>Map\<close> and the properties of an object are kept as association lists in
  insertion order. \<open>undefined\<close> is not a stored value: it is what \<open>Map.get\<close> answers for a
  missing key, which is \<open>None\<close> of \<open>map_of\<close> here. Numbers are restricted to integers; no
  definition below computes with them. A string is the list of the bytes of its UTF-8
  encoding; on well-formed strings \<open>startsWith\<close> and \<open>endsWith\<close> are the prefix and suffix
  orders of these lists. The order in which an object enumerates integer-like property names
  is not modelled; no statement below depends on it.
\<close>

datatype json =
    JNull
  | JBool bool
  | JNum int
  | JStr string
  | JArr "json list"
  | JObj "(string \<times> json) list"


text \<open>\<open>a ?? b\<close>: \<open>b\<close> when \<open>a\<close> is \<open>undefined\<close> (here \<open>None\<close>) or \<open>null\<close>, otherwise \<open>a\<close>.\<close>

definition nullish_or :: "json option \<Rightarrow> json \<Rightarrow> json" where
  "nullish_or a b = (case a of None \<Rightarrow> b | Some JNull \<Rightarrow> b | Some v \<Rightarrow> v)"

definition startsWith :: "string \<Rightarrow> string \<Rightarrow> bool" where
  "startsWith key p = prefix p key"


section \<open>TestCacheImpl (server/tests/test-api-client.ts)\<close>

text \<open>
  Every instance of \<open>TestCacheImpl\<close> owns one private field \<open>data = new Map<string, any>()\<close>.
  Instances are objects with identity, so the model keeps them in a heap from references to
  the contents of \<open>data\<close>; each method takes the heap and \<open>this\<close> and returns what the method
  returns, with the new heap when it mutates. All methods are \<open>async\<close> and contain no
  \<open>await\<close> on anything but each other and the factory, so each call is one atomic step.
\<close>

type_synonym ref = nat
type_synonym jsmap = "(string \<times> json) list"
type_synonym heap = "ref \<Rightarrow> jsmap"

definition TestCacheImpl_get :: "heap \<Rightarrow> ref \<Rightarrow> string \<Rightarrow> json" where
  "TestCacheImpl_get h this key = nullish_or (map_of (h this) key) JNull"

text \<open>The third parameter \<open>_save?: boolean\<close> is optional and unused.\<close>

definition TestCacheImpl_set :: "heap \<Rightarrow> ref \<Rightarrow> string \<Rightarrow> json \<Rightarrow> bool option \<Rightarrow> heap" where
  "TestCacheImpl_set h this key v save = h(this := AList.update key v (h this))"

definition TestCacheImpl_delete :: "heap \<Rightarrow> ref \<Rightarrow> string \<Rightarrow> bool option \<Rightarrow> heap" where
  "TestCacheImpl_delete h this key save = h(this := AList.delete key (h this))"

text \<open>
  \<open>for (const key of this.data.keys()) if (key.startsWith(prefix)) this.data.delete(key)\<close>:
  the iterator of a \<open>Map\<close> is live, and deleting the entry just visited does not disturb the
  visit of the later ones, so the loop visits every key present at call time once.
\<close>

definition TestCacheImpl_deletePrefix :: "heap \<Rightarrow> ref \<Rightarrow> string \<Rightarrow> heap" where
  "TestCacheImpl_deletePrefix h this p =
     h(this := foldl (\<lambda>data key. if startsWith key p then AList.delete key data else data)
                 (h this) (map fst (h this)))"

text \<open>
  The factory of \<open>getOrSet\<close> is a caller's closure \<open>() => Promise<T>\<close>. It may read and write
  the heap and a world \<open>'w\<close> of its own, and its promise is fulfilled with a value (\<open>Inr\<close>) or
  rejected (\<open>Inl\<close>). The field \<open>calls\<close> is not part of the program: it counts the invocations
  of factories.
\<close>

type_synonym ('e, 'w) factory = "heap \<times> 'w \<Rightarrow> ('e + json) \<times> heap \<times> 'w"

record 'w env =
  heap :: heap
  world :: 'w
  calls :: nat

definition TestCacheImpl_getOrSet ::
  "ref \<Rightarrow> string \<Rightarrow> ('e, 'w) factory \<Rightarrow> 'w env \<Rightarrow> ('e + json) \<times> 'w env" where
  "TestCacheImpl_getOrSet this key factory e =
     (let cached = TestCacheImpl_get (heap e) this key in
      if cached \<noteq> JNull then (Inr cached, e)
      else
        (case factory (heap e, world e) of
           (Inl err, h', w') \<Rightarrow> (Inl err, \<lparr>heap = h', world = w', calls = Suc (calls e)\<rparr>)
         | (Inr v, h', w') \<Rightarrow>
             (Inr v, \<lparr>heap = TestCacheImpl_set h' this key v None, world = w',
                      calls = Suc (calls e)\<rparr>)))"

definition TestCacheImpl_getOrDefault :: "heap \<Rightarrow> ref \<Rightarrow> string \<Rightarrow> json \<Rightarrow> json" where
  "TestCacheImpl_getOrDefault h this key defaultValue =
     (let cached = TestCacheImpl_get h this key in
      if cached \<noteq> JNull then cached else defaultValue)"


text \<open>\<open>all\<close> returns \<open>new Map(this.data)\<close>, a copy of the entries.\<close>

definition TestCacheImpl_all :: "heap \<Rightarrow> ref \<Rightarrow> jsmap" where
  "TestCacheImpl_all h this = h this"

definition TestCacheImpl_save :: "heap \<Rightarrow> ref \<Rightarrow> heap" where
  "TestCacheImpl_save h this = h"

definition TestCacheImpl_clear :: "heap \<Rightarrow> ref \<Rightarrow> heap" where
  "TestCacheImpl_clear h this = h(this := [])"



section \<open>ConfigService (server/src/services/config.ts)\<close>

text \<open>
  The request context carries the variables set by the middleware; the handlers below read
  \<open>admin\<close> and the three stores (the variables \<open>db\<close>, \<open>jwt\<close>, \<open>oauth2\<close>, \<open>uid\<close>, \<open>username\<close>
  and \<open>env\<close> are not needed for them). The type of a store variable is a parameter: the
  test middleware sets references to instances of \<open>TestCacheImpl\<close>.
\<close>

record 's variables =
  admin :: bool
  cache :: 's
  serverConfig :: 's
  clientConfig :: 's

datatype response = Text nat string | Json nat jsmap










text \<open>\<open>app.delete('/cache', ...)\<close>.\<close>

definition DELETE_cache :: "ref variables \<Rightarrow> heap \<Rightarrow> response \<times> heap" where
  "DELETE_cache c h =
     (if \<not> admin c then (Text 401 ''Unauthorized'', h)
      else (Text 200 ''OK'', TestCacheImpl_clear h (cache c)))"



section \<open>LazyInitContainer (server/src/core/types.ts)\<close>

text \<open>
  The container memoizes instances and the promises of constructions in flight. A factory
  \<open>() => Promise<T>\<close> is given by the outcome its promise settles to; the promise
  \<open>factory().then(...)\<close> kept in \<open>initializing\<close> settles to the same outcome, and is identified
  with it. The field \<open>invoked\<close> is not part of the class: it logs the key of every invocation
  of a factory.
\<close>

datatype 'a outcome = Fulfilled 'a | Rejected string

record 'a container =
  instances :: "string \<rightharpoonup> 'a"
  initializing :: "string \<rightharpoonup> 'a outcome"
  invoked :: "string list"

definition new_LazyInitContainer :: "'a container" where
  "new_LazyInitContainer = \<lparr>instances = Map.empty, initializing = Map.empty, invoked = []\<rparr>"

text \<open>The synchronous part of \<open>get\<close>: what the returned promise settles to, and the container.\<close>

definition LazyInitContainer_get ::
  "'a container \<Rightarrow> string \<Rightarrow> 'a outcome \<Rightarrow> 'a outcome \<times> 'a container" where
  "LazyInitContainer_get c key factory =
     (case instances c key of
        Some inst \<Rightarrow> (Fulfilled inst, c)
      | None \<Rightarrow>
          (case initializing c key of
             Some p \<Rightarrow> (p, c)
           | None \<Rightarrow>
               (factory, c\<lparr>initializing := (initializing c)(key \<mapsto> factory),
                            invoked := invoked c @ [key]\<rparr>)))"

text \<open>
  The callback given to \<open>then\<close>, run when the factory's promise for \<open>key\<close> is fulfilled:
  \<open>instances.set(key, instance); initializing.delete(key)\<close>. It does not run for a rejected
  promise, which stays in \<open>initializing\<close>.
\<close>

definition init_settled :: "'a container \<Rightarrow> string \<Rightarrow> 'a container" where
  "init_settled c key =
     (case initializing c key of
        Some (Fulfilled inst) \<Rightarrow>
          c\<lparr>instances := (instances c)(key \<mapsto> inst),
            initializing := (initializing c)(key := None)\<rparr>
      | _ \<Rightarrow> c)"

text \<open>A request is a sequence of calls of \<open>get\<close> interleaved with the settling of promises.\<close>

datatype 'a event = Get string "'a outcome" | Settle string

fun step :: "'a container \<Rightarrow> 'a event \<Rightarrow> 'a container" where
  "step c (Get key factory) = snd (LazyInitContainer_get c key factory)"
| "step c (Settle key) = init_settled c key"

definition run :: "'a container \<Rightarrow> 'a event list \<Rightarrow> 'a container" where
  "run c es = foldl step c es"

text \<open>What the container has memoized for a key, and the invariant of its two maps and the
  log; both are used in the proofs only.\<close>

definition memo :: "'a container \<Rightarrow> string \<Rightarrow> 'a outcome option" where
  "memo c key =
     (case instances c key of Some inst \<Rightarrow> Some (Fulfilled inst) | None \<Rightarrow> initializing c key)"

definition container_inv :: "'a container \<Rightarrow> bool" where
  "container_inv c \<longleftrightarrow>
     dom (instances c) \<inter> dom (initializing c) = {} \<and>
     set (invoked c) = dom (instances c) \<union> dom (initializing c) \<and>
     distinct (invoked c)"

section \<open>Construction of the stores (server/src/core/types.ts and the worker entry)\<close>

text \<open>
  The class \<open>CacheImpl\<close> of \<open>utils/cache\<close> is not among the sources; its call sites are. A
  construction \<open>new CacheImpl(db, env, namespace, backend?)\<close> is recorded by its namespace
  and its optional fourth argument (\<open>db\<close> and \<open>env\<close> are the same at every call site).
\<close>

record cache_args =
  namespace :: string
  backend_arg :: "string option"

datatype service = Drizzle | CacheImpl cache_args | JWT string | OAuthPlugin string string

text \<open>The bindings of the environment the middleware reads; a binding is a string or
  \<open>undefined\<close> (\<open>None\<close>), and is falsy when undefined or empty.\<close>

record Env =
  JWT_SECRET :: "string option"
  RIN_GITHUB_CLIENT_ID :: "string option"
  RIN_GITHUB_CLIENT_SECRET :: "string option"

text \<open>
  \<open>await container.get(key, factory)\<close>: the middleware resumes when the promise has settled,
  so after the callback of \<open>then\<close> has run; a rejection is thrown to the caller of the
  middleware. The dynamic imports inside the factories are taken to succeed.
\<close>

definition await_get ::
  "'a container \<Rightarrow> string \<Rightarrow> 'a outcome \<Rightarrow> 'a outcome \<times> 'a container" where
  "await_get c key factory =
     (case LazyInitContainer_get c key factory of (p, c') \<Rightarrow> (p, init_settled c' key))"

definition then_await ::
  "'a outcome \<times> 'a container \<Rightarrow> ('a \<Rightarrow> 'a container \<Rightarrow> string + 'r) \<Rightarrow> string + 'r" where
  "then_await r k = (case r of (Rejected e, c) \<Rightarrow> Inl e | (Fulfilled x, c) \<Rightarrow> k x c)"

definition initContainerMiddleware ::
  "Env \<Rightarrow> string + (service variables \<times> service container)" where
  "initContainerMiddleware env =
     then_await (await_get new_LazyInitContainer ''db'' (Fulfilled Drizzle))
       (\<lambda>db container.
     then_await (await_get container ''cache''
         (Fulfilled (CacheImpl \<lparr>namespace = ''cache'', backend_arg = None\<rparr>)))
       (\<lambda>cache container.
     then_await (await_get container ''serverConfig''
         (Fulfilled (CacheImpl \<lparr>namespace = ''server.config'', backend_arg = Some ''database''\<rparr>)))
       (\<lambda>serverConfig container.
     then_await (await_get container ''clientConfig''
         (Fulfilled (CacheImpl \<lparr>namespace = ''client.config'', backend_arg = None\<rparr>)))
       (\<lambda>clientConfig container.
     then_await (await_get container ''jwt''
         (case JWT_SECRET env of
            None \<Rightarrow> Rejected ''JWT_SECRET is not set''
          | Some secret \<Rightarrow>
              if secret = [] then Rejected ''JWT_SECRET is not set'' else Fulfilled (JWT secret)))
       (\<lambda>jwt container.
     (let vars = \<lparr>admin = False, cache = cache, serverConfig = serverConfig,
                   clientConfig = clientConfig\<rparr>
      in case (RIN_GITHUB_CLIENT_ID env, RIN_GITHUB_CLIENT_SECRET env) of
           (Some clientId, Some clientSecret) \<Rightarrow>
             if clientId \<noteq> [] \<and> clientSecret \<noteq> []
             then then_await (await_get container ''oauth2''
                    (Fulfilled (OAuthPlugin clientId clientSecret)))
                    (\<lambda>oauth2 container. Inr (vars, container))
             else Inr (vars, container)
         | _ \<Rightarrow> Inr (vars, container)))))))"

text \<open>The stores the scheduled job constructs, in the order it passes them to
  \<open>friendCrontab\<close>: cache, server configuration, client configuration.\<close>

definition scheduled :: "cache_args \<times> cache_args \<times> cache_args" where
  "scheduled =
     (\<lparr>namespace = ''cache'', backend_arg = None\<rparr>,
      \<lparr>namespace = ''server.config'', backend_arg = Some ''database''\<rparr>,
      \<lparr>namespace = ''client.config'', backend_arg = None\<rparr>)"

subsection \<open>The two backends\<close>

text \<open>Modelled from the spec: the class \<open>CacheImpl\<close> of \<open>utils/cache\<close> is missing from the
  sources; this subsection models it as far as it decides where a write goes. A store is
  bound at construction to one namespace and one backend variant, never changed afterwards.\<close>

datatype backend = Relational | Object

text \<open>Modelled from the spec: the choice of the variant by the constructor of \<open>CacheImpl\<close>
  (missing). Its fourth argument names the variant, \<open>"database"\<close> being the relational one;
  without it the variant is the default of the deployment, a parameter here.\<close>

definition CacheImpl_backend :: "backend \<Rightarrow> string option \<Rightarrow> backend" where
  "CacheImpl_backend deployment_default arg =
     (case arg of
        None \<Rightarrow> deployment_default
      | Some m \<Rightarrow> if m = ''database'' then Relational else Object)"

text \<open>Modelled from the spec: the two external stores \<open>CacheImpl\<close> (missing) writes to. The
  relational backend keeps rows keyed by (key, namespace) in a shared table; the object
  backend keeps one object per namespace, whose body is the map of all its entries. The field
  \<open>puts\<close> logs the namespace of every object written to the object store.\<close>

record storage =
  rows :: "((string \<times> string) \<times> json) list"
  objects :: "(string \<times> jsmap) list"
  puts :: "string list"

text \<open>Modelled from the spec: the state of an instance of \<open>CacheImpl\<close> (missing): its
  namespace, its variant, and the writes buffered with \<open>persistImmediately = false\<close> (a value
  to upsert, or \<open>None\<close> for a deletion).\<close>

record store =
  store_namespace :: string
  variant :: backend
  pending :: "(string \<times> json option) list"

text \<open>Modelled from the spec: the constructor of \<open>CacheImpl\<close> (missing).\<close>

definition new_CacheImpl :: "backend \<Rightarrow> cache_args \<Rightarrow> store" where
  "new_CacheImpl deployment_default args =
     \<lparr>store_namespace = namespace args,
      variant = CacheImpl_backend deployment_default (backend_arg args),
      pending = []\<rparr>"

text \<open>Modelled from the spec: the batched upsert of the relational backend of \<open>CacheImpl\<close>
  (missing), by (key, namespace).\<close>

definition upsert_rows ::
  "string \<Rightarrow> (string \<times> json option) list \<Rightarrow> ((string \<times> string) \<times> json) list
     \<Rightarrow> ((string \<times> string) \<times> json) list" where
  "upsert_rows ns ws rs =
     foldl (\<lambda>rs w. case snd w of
                      Some v \<Rightarrow> AList.update (fst w, ns) v rs
                    | None \<Rightarrow> AList.delete (fst w, ns) rs) rs ws"

text \<open>Modelled from the spec: the object backend of \<open>CacheImpl\<close> (missing) merges the writes
  into the body of the object it has read.\<close>

definition merge_object :: "(string \<times> json option) list \<Rightarrow> jsmap \<Rightarrow> jsmap" where
  "merge_object ws body =
     foldl (\<lambda>body w. case snd w of
                        Some v \<Rightarrow> AList.update (fst w) v body
                      | None \<Rightarrow> AList.delete (fst w) body) body ws"

text \<open>Modelled from the spec: get-object-by-key of the object store used by \<open>CacheImpl\<close>
  (missing); a namespace never written has the empty map.\<close>

definition read_object :: "storage \<Rightarrow> string \<Rightarrow> jsmap" where
  "read_object st ns = (case map_of (objects st) ns of None \<Rightarrow> [] | Some body \<Rightarrow> body)"

text \<open>Modelled from the spec: put-object-by-key of the object store used by \<open>CacheImpl\<close>
  (missing).\<close>

definition put_object :: "string \<Rightarrow> jsmap \<Rightarrow> storage \<Rightarrow> storage" where
  "put_object ns body st =
     st\<lparr>objects := AList.update ns body (objects st), puts := puts st @ [ns]\<rparr>"

text \<open>Modelled from the spec: a flush of \<open>CacheImpl\<close> (missing). The relational backend
  upserts; the object backend reads the object, merges and writes it back once.\<close>

definition flush :: "store \<Rightarrow> (string \<times> json option) list \<Rightarrow> storage \<Rightarrow> storage" where
  "flush s ws st =
     (case variant s of
        Relational \<Rightarrow> st\<lparr>rows := upsert_rows (store_namespace s) ws (rows st)\<rparr>
      | Object \<Rightarrow>
          put_object (store_namespace s) (merge_object ws (read_object st (store_namespace s))) st)"

text \<open>Modelled from the spec: the mutating operations of \<open>CacheImpl\<close> (missing):
  \<open>set(key, value, persistImmediately)\<close>, \<open>delete(key, persistImmediately)\<close>, \<open>save()\<close>,
  \<open>deletePrefix(prefix)\<close> and \<open>clear()\<close>.\<close>

datatype store_op =
    Set string json bool
  | Delete string bool
  | Save
  | DeletePrefix string
  | Clear

text \<open>Modelled from the spec: the effect of one operation of \<open>CacheImpl\<close> (missing). A write
  with \<open>persistImmediately = false\<close> is buffered in the instance until \<open>save()\<close>; \<open>save()\<close>
  with nothing buffered is a no-op; \<open>deletePrefix\<close> and \<open>clear\<close> are immediate and touch the
  entries of the store's namespace only.\<close>

fun store_step :: "store \<times> storage \<Rightarrow> store_op \<Rightarrow> store \<times> storage" where
  "store_step (s, st) (Set k v persistImmediately) =
     (if persistImmediately then (s, flush s [(k, Some v)] st)
      else (s\<lparr>pending := pending s @ [(k, Some v)]\<rparr>, st))"
| "store_step (s, st) (Delete k persistImmediately) =
     (if persistImmediately then (s, flush s [(k, None)] st)
      else (s\<lparr>pending := pending s @ [(k, None)]\<rparr>, st))"
| "store_step (s, st) Save =
     (if pending s = [] then (s, st) else (s\<lparr>pending := []\<rparr>, flush s (pending s) st))"
| "store_step (s, st) (DeletePrefix p) =
     (case variant s of
        Relational \<Rightarrow>
          (s, st\<lparr>rows := filter (\<lambda>r. \<not> (snd (fst r) = store_namespace s \<and> startsWith (fst (fst r)) p))
                            (rows st)\<rparr>)
      | Object \<Rightarrow>
          (s, put_object (store_namespace s)
                (filter (\<lambda>e. \<not> startsWith (fst e) p) (read_object st (store_namespace s))) st))"
| "store_step (s, st) Clear =
     (case variant s of
        Relational \<Rightarrow> (s, st\<lparr>rows := filter (\<lambda>r. snd (fst r) \<noteq> store_namespace s) (rows st)\<rparr>)
      | Object \<Rightarrow> (s, put_object (store_namespace s) [] st))"

text \<open>Modelled from the spec: a sequence of operations on one instance of \<open>CacheImpl\<close>
  (missing), observed in call order.\<close>

definition store_run :: "store \<times> storage \<Rightarrow> store_op list \<Rightarrow> store \<times> storage" where
  "store_run x ops = foldl store_step x ops"

section \<open>Example inputs\<close>

text \<open>An example heap: instance 0 caches a feed listing and a moments page, the others are empty.\<close>

definition feeds_store :: heap where
  "feeds_store =
     (\<lambda>r. [])(0 := [(''feeds_normal_0_20'', JArr [JNum 1]), (''moments_0'', JStr ''m'')])"





text \<open>A context as the test middleware builds it, with three separate instances; the cache
  holds five entries and each configuration store one.\<close>

definition admin_context :: "ref variables" where
  "admin_context = \<lparr>admin = True, cache = 0, serverConfig = 1, clientConfig = 2\<rparr>"

definition populated_heap :: heap where
  "populated_heap =
     (\<lambda>r. [])(0 := [(''a'', JNum 1), (''b'', JNum 2), (''c'', JNum 3), (''d'', JNum 4),
                     (''e'', JNum 5)],
               1 := [(''webhook_url'', JStr ''https://example.com/webhook'')],
               2 := [(''site.name'', JStr ''Rin'')])"



text \<open>The environment of the test fixtures, the context and container the middleware builds
  from it, an empty storage, and a sequence of writes to a configuration store.\<close>

definition worker_env :: Env where
  "worker_env =
     \<lparr>JWT_SECRET = Some ''test-jwt-secret'', RIN_GITHUB_CLIENT_ID = Some ''test-client-id'',
      RIN_GITHUB_CLIENT_SECRET = Some ''test-client-secret''\<rparr>"

definition served_container :: "service container" where
  "served_container =
     \<lparr>instances =
        [''db'' \<mapsto> Drizzle,
         ''cache'' \<mapsto> CacheImpl \<lparr>namespace = ''cache'', backend_arg = None\<rparr>,
         ''serverConfig'' \<mapsto>
            CacheImpl \<lparr>namespace = ''server.config'', backend_arg = Some ''database''\<rparr>,
         ''clientConfig'' \<mapsto> CacheImpl \<lparr>namespace = ''client.config'', backend_arg = None\<rparr>,
         ''jwt'' \<mapsto> JWT ''test-jwt-secret'',
         ''oauth2'' \<mapsto> OAuthPlugin ''test-client-id'' ''test-client-secret''],
      initializing = Map.empty,
      invoked = [''db'', ''cache'', ''serverConfig'', ''clientConfig'', ''jwt'', ''oauth2'']\<rparr>"

definition served_variables :: "service variables" where
  "served_variables =
     \<lparr>admin = False,
      cache = CacheImpl \<lparr>namespace = ''cache'', backend_arg = None\<rparr>,
      serverConfig = CacheImpl \<lparr>namespace = ''server.config'', backend_arg = Some ''database''\<rparr>,
      clientConfig = CacheImpl \<lparr>namespace = ''client.config'', backend_arg = None\<rparr>\<rparr>"

definition empty_storage :: storage where
  "empty_storage = \<lparr>rows = [], objects = [], puts = []\<rparr>"

definition config_ops :: "store_op list" where
  "config_ops =
     [Set ''webhook_url'' (JStr ''https://example.com/webhook'') False,
      Set ''ai_summary.api_key'' (JStr ''secret_key_123'') False,
      Save,
      Set ''friend_apply_enable'' (JBool True) True,
      Delete ''webhook_url'' True,
      DeletePrefix ''friend_'',
      Clear]"

section \<open>Properties of the test store\<close>

lemma nullish_or_null: "nullish_or (Some v) JNull = v"
  by (cases v) (simp_all add: nullish_or_def)

lemma get_after_set: "TestCacheImpl_get (TestCacheImpl_set h this k v s) this k = v"
  by (simp add: TestCacheImpl_get_def TestCacheImpl_set_def update_conv' nullish_or_null)

text \<open>
  C3. For every key \<open>k\<close> and every value \<open>v\<close>, \<open>set(k, v)\<close> followed by \<open>get(k)\<close> on the same
  store instance returns \<open>v\<close>, whatever the optional third argument of \<open>set\<close> and whatever the
  store held before.
\<close>

theorem C3_set_get_roundtrip:
  "TestCacheImpl_get (TestCacheImpl_set h this k v save) this k = v"
  by (rule get_after_set)

subsection \<open>Prefix invalidation\<close>

lemma fold_delete_lookup:
  "map_of (foldl (\<lambda>data key. if P key then AList.delete key data else data) d ks) k
     = (if k \<in> set ks \<and> P k then None else map_of d k)"
  by (induction ks arbitrary: d) (auto simp: delete_conv')

lemma fold_delete_none:
  "\<forall>k\<in>set ks. \<not> P k \<Longrightarrow>
     foldl (\<lambda>data key. if P key then AList.delete key data else data) d ks = d"
  by (induction ks arbitrary: d) auto

lemma fold_delete_keys_lookup:
  "map_of (foldl (\<lambda>data key. if P key then AList.delete key data else data) d (map fst d)) k
     = (if P k then None else map_of d k)"
proof (cases "k \<in> fst ` set d")
  case True
  then show ?thesis by (simp add: fold_delete_lookup)
next
  case False
  then have "map_of d k = None" by (simp add: map_of_eq_None_iff)
  then show ?thesis by (simp add: fold_delete_lookup)
qed

lemma deletePrefix_get_prefixed:
  "startsWith k p \<Longrightarrow> TestCacheImpl_get (TestCacheImpl_deletePrefix h this p) this k = JNull"
  by (simp add: TestCacheImpl_get_def TestCacheImpl_deletePrefix_def fold_delete_keys_lookup
        nullish_or_def)

lemma deletePrefix_get_other:
  "\<not> startsWith k p \<Longrightarrow>
     TestCacheImpl_get (TestCacheImpl_deletePrefix h this p) r k = TestCacheImpl_get h r k"
  by (simp add: TestCacheImpl_get_def TestCacheImpl_deletePrefix_def fold_delete_keys_lookup)

lemma deletePrefix_other_instance: "r \<noteq> this \<Longrightarrow> TestCacheImpl_deletePrefix h this p r = h r"
  by (simp add: TestCacheImpl_deletePrefix_def)

lemma deletePrefix_no_match:
  "\<forall>k\<in>set (map fst (h this)). \<not> startsWith k p \<Longrightarrow> TestCacheImpl_deletePrefix h this p = h"
  by (simp add: TestCacheImpl_deletePrefix_def fold_delete_none)

text \<open>
  C4. For every store state and every prefix \<open>p\<close>, after \<open>deletePrefix(p)\<close>: \<open>get(k)\<close> returns
  the absent marker for every key \<open>k\<close> that starts with \<open>p\<close>; \<open>get(k)\<close> is what it was for
  every key that does not start with \<open>p\<close>; and when no key of the store starts with \<open>p\<close>
  the call leaves the whole state (this instance and every other) as it was. The method has
  no failing branch: it returns a state for every input.
\<close>

theorem C4_deletePrefix_frame:
  "(startsWith k p \<longrightarrow>
      TestCacheImpl_get (TestCacheImpl_deletePrefix h this p) this k = JNull) \<and>
   (\<not> startsWith k p \<longrightarrow>
      TestCacheImpl_get (TestCacheImpl_deletePrefix h this p) this k = TestCacheImpl_get h this k) \<and>
   ((\<forall>k'\<in>set (map fst (h this)). \<not> startsWith k' p) \<longrightarrow>
      TestCacheImpl_deletePrefix h this p = h)"
  using deletePrefix_get_prefixed deletePrefix_get_other deletePrefix_no_match by blast

theorem C4_deletePrefix_frame_witness:
  "startsWith ''feeds_normal_0_20'' ''feeds_'' \<and>
   TestCacheImpl_get (TestCacheImpl_deletePrefix feeds_store 0 ''feeds_'') 0 ''feeds_normal_0_20''
     = JNull \<and>
   \<not> startsWith ''moments_0'' ''feeds_'' \<and>
   TestCacheImpl_get (TestCacheImpl_deletePrefix feeds_store 0 ''feeds_'') 0 ''moments_0''
     = JStr ''m'' \<and>
   map fst (feeds_store 0) = [''feeds_normal_0_20'', ''moments_0''] \<and>
   \<not> startsWith ''feeds_normal_0_20'' ''rss_'' \<and> \<not> startsWith ''moments_0'' ''rss_'' \<and>
   TestCacheImpl_deletePrefix feeds_store 0 ''rss_'' = feeds_store"
proof -
  have a: "startsWith ''feeds_normal_0_20'' ''feeds_''"
    by (simp add: startsWith_def)
  have b: "\<not> startsWith ''moments_0'' ''feeds_''"
    by (simp add: startsWith_def)
  have c: "\<forall>k'\<in>set (map fst (feeds_store 0)). \<not> startsWith k' ''rss_''"
    by (simp add: feeds_store_def startsWith_def)
  have d: "TestCacheImpl_get feeds_store 0 ''moments_0'' = JStr ''m''"
    by (simp add: feeds_store_def TestCacheImpl_get_def nullish_or_def)
  show ?thesis
    using a b c d
      C4_deletePrefix_frame [of "''feeds_normal_0_20''" "''feeds_''" feeds_store 0]
      C4_deletePrefix_frame [of "''moments_0''" "''feeds_''" feeds_store 0]
      C4_deletePrefix_frame [of "''k''" "''rss_''" feeds_store 0]
    by (simp add: feeds_store_def startsWith_def)
qed

subsection \<open>Null is the absent marker\<close>

lemma getOrDefault_after_set_null:
  "TestCacheImpl_getOrDefault (TestCacheImpl_set h this k JNull s) this k d = d"
  by (simp add: TestCacheImpl_getOrDefault_def get_after_set)

lemma getOrSet_miss:
  "TestCacheImpl_get (heap e) this k = JNull \<Longrightarrow>
     calls (snd (TestCacheImpl_getOrSet this k f e)) = Suc (calls e) \<and>
     fst (TestCacheImpl_getOrSet this k f e) = fst (f (heap e, world e))"
  by (auto simp: TestCacheImpl_getOrSet_def split: prod.splits sum.splits)


text \<open>
  C10. A stored \<open>null\<close> cannot be told from absence: for every key \<open>k\<close>, after \<open>set(k, null)\<close>,
  \<open>get(k)\<close> returns \<open>null\<close>, \<open>getOrDefault(k, d)\<close> returns the default \<open>d\<close>, and
  \<open>getOrSet(k, factory)\<close> invokes the factory (one more invocation is counted) and returns
  what the factory produced, as for a key that was never set.
\<close>

theorem C10_stored_null_is_absent:
  "TestCacheImpl_get (TestCacheImpl_set (heap e) this k JNull s) this k = JNull \<and>
   TestCacheImpl_getOrDefault (TestCacheImpl_set (heap e) this k JNull s) this k d = d \<and>
   calls (snd (TestCacheImpl_getOrSet this k f
            (e\<lparr>heap := TestCacheImpl_set (heap e) this k JNull s\<rparr>))) = Suc (calls e) \<and>
   fst (TestCacheImpl_getOrSet this k f
            (e\<lparr>heap := TestCacheImpl_set (heap e) this k JNull s\<rparr>))
     = fst (f (TestCacheImpl_set (heap e) this k JNull s, world e))"
  using getOrSet_miss [of "e\<lparr>heap := TestCacheImpl_set (heap e) this k JNull s\<rparr>" this k f]
  by (simp add: get_after_set getOrDefault_after_set_null)

subsection \<open>Cache-aside\<close>





subsection \<open>Suffix lookup\<close>





subsection \<open>Instances are separate\<close>


lemma save_is_noop: "TestCacheImpl_save h this = h"
  by (simp add: TestCacheImpl_save_def)



subsection \<open>Clearing the cache\<close>

text \<open>
  C8. The clear-cache action leaves the server-config and client-config stores as they were
  (they are instances other than the cache), for an administrator it empties the cache
  store, and for any store \<open>clear()\<close> makes a following \<open>all()\<close> return the empty mapping.
\<close>

theorem C8_clear_cache_only:
  "(cache c \<noteq> serverConfig c \<and> cache c \<noteq> clientConfig c \<longrightarrow>
      TestCacheImpl_all (snd (DELETE_cache c h)) (serverConfig c)
        = TestCacheImpl_all h (serverConfig c) \<and>
      TestCacheImpl_all (snd (DELETE_cache c h)) (clientConfig c)
        = TestCacheImpl_all h (clientConfig c)) \<and>
   (admin c \<longrightarrow> fst (DELETE_cache c h) = Text 200 ''OK'' \<and>
      TestCacheImpl_all (snd (DELETE_cache c h)) (cache c) = []) \<and>
   TestCacheImpl_all (TestCacheImpl_clear h this) this = []"
  by (simp add: DELETE_cache_def TestCacheImpl_all_def TestCacheImpl_clear_def)

theorem C8_clear_cache_only_witness:
  "admin admin_context \<and>
   cache admin_context \<noteq> serverConfig admin_context \<and>
   cache admin_context \<noteq> clientConfig admin_context \<and>
   length (TestCacheImpl_all populated_heap (cache admin_context)) = 5 \<and>
   TestCacheImpl_all (snd (DELETE_cache admin_context populated_heap)) (cache admin_context) = [] \<and>
   TestCacheImpl_all (snd (DELETE_cache admin_context populated_heap)) (serverConfig admin_context)
     = [(''webhook_url'', JStr ''https://example.com/webhook'')] \<and>
   TestCacheImpl_all (snd (DELETE_cache admin_context populated_heap)) (clientConfig admin_context)
     = [(''site.name'', JStr ''Rin'')]"
proof -
  have a: "admin admin_context \<and> cache admin_context \<noteq> serverConfig admin_context \<and>
      cache admin_context \<noteq> clientConfig admin_context"
    by (simp add: admin_context_def)
  have b: "TestCacheImpl_all populated_heap (serverConfig admin_context)
        = [(''webhook_url'', JStr ''https://example.com/webhook'')] \<and>
      TestCacheImpl_all populated_heap (clientConfig admin_context) = [(''site.name'', JStr ''Rin'')] \<and>
      length (TestCacheImpl_all populated_heap (cache admin_context)) = 5"
    by (simp add: admin_context_def populated_heap_def TestCacheImpl_all_def)
  show ?thesis
    using a b C8_clear_cache_only [of admin_context populated_heap 0]
    by simp
qed

section \<open>Properties of the configuration service\<close>

























section \<open>Properties of the container\<close>

lemma inv_new: "container_inv new_LazyInitContainer"
  by (simp add: container_inv_def new_LazyInitContainer_def)

lemma inv_get: "container_inv c \<Longrightarrow> container_inv (snd (LazyInitContainer_get c key f))"
  by (auto simp: container_inv_def LazyInitContainer_get_def split: option.splits)

lemma inv_settled: "container_inv c \<Longrightarrow> container_inv (init_settled c key)"
  by (auto simp: container_inv_def init_settled_def split: option.splits outcome.splits)

lemma inv_step: "container_inv c \<Longrightarrow> container_inv (step c e)"
  by (cases e) (simp_all add: inv_get inv_settled)

lemma inv_run: "container_inv c \<Longrightarrow> container_inv (run c es)"
  by (induction es arbitrary: c) (simp_all add: run_def inv_step)

lemma get_memoized: "memo c key = Some r \<Longrightarrow> LazyInitContainer_get c key f = (r, c)"
  by (auto simp: memo_def LazyInitContainer_get_def split: option.splits)

lemma memo_after_get:
  "memo (snd (LazyInitContainer_get c key f)) key = Some (fst (LazyInitContainer_get c key f))"
  by (auto simp: memo_def LazyInitContainer_get_def split: option.splits)

lemma memo_get_other:
  "memo c key = Some r \<Longrightarrow> memo (snd (LazyInitContainer_get c k f)) key = Some r"
  by (cases "k = key") (auto simp: memo_def LazyInitContainer_get_def split: option.splits)

lemma memo_settled:
  "container_inv c \<Longrightarrow> memo c key = Some r \<Longrightarrow> memo (init_settled c k) key = Some r"
  by (cases "k = key")
     (auto simp: memo_def init_settled_def container_inv_def split: option.splits outcome.splits)

lemma memo_step: "container_inv c \<Longrightarrow> memo c key = Some r \<Longrightarrow> memo (step c e) key = Some r"
  by (cases e) (simp_all add: memo_get_other memo_settled)

lemma memo_run: "container_inv c \<Longrightarrow> memo c key = Some r \<Longrightarrow> memo (run c es) key = Some r"
proof (induction es arbitrary: c)
  case Nil
  then show ?case by (simp add: run_def)
next
  case (Cons e es)
  have "container_inv (step c e)" using Cons.prems(1) by (rule inv_step)
  moreover have "memo (step c e) key = Some r" using Cons.prems by (rule memo_step)
  ultimately have "memo (run (step c e) es) key = Some r" by (rule Cons.IH)
  then show ?case by (simp add: run_def)
qed

text \<open>
  C9. In every run of a new container, whatever calls of \<open>get\<close> and settlings of promises it
  consists of, no key has its factory invoked twice. After a first \<open>get\<close> of a key, a second
  \<open>get\<close> of the same key, with any factory and after any further events (so with the first
  construction still in flight, or completed, or failed), invokes no factory and returns what
  the first returned.
\<close>

theorem C9_factory_at_most_once:
  "distinct (invoked (run new_LazyInitContainer es)) \<and>
   fst (LazyInitContainer_get
          (run (snd (LazyInitContainer_get (run new_LazyInitContainer es) key f1)) es') key f2)
     = fst (LazyInitContainer_get (run new_LazyInitContainer es) key f1) \<and>
   invoked (snd (LazyInitContainer_get
          (run (snd (LazyInitContainer_get (run new_LazyInitContainer es) key f1)) es') key f2))
     = invoked (run (snd (LazyInitContainer_get (run new_LazyInitContainer es) key f1)) es')"
proof -
  let ?c = "run new_LazyInitContainer es"
  let ?c1 = "snd (LazyInitContainer_get ?c key f1)"
  let ?r1 = "fst (LazyInitContainer_get ?c key f1)"
  let ?c2 = "run ?c1 es'"
  have i: "container_inv ?c" by (simp add: inv_run inv_new)
  then have i1: "container_inv ?c1" by (rule inv_get)
  have "memo ?c1 key = Some ?r1" by (rule memo_after_get)
  with i1 have "memo ?c2 key = Some ?r1" by (rule memo_run)
  then have "LazyInitContainer_get ?c2 key f2 = (?r1, ?c2)" by (rule get_memoized)
  moreover have "distinct (invoked ?c)" using i by (simp add: container_inv_def)
  ultimately show ?thesis by simp
qed

section \<open>Properties of the construction of the stores\<close>

lemma middleware_serverConfig:
  "initContainerMiddleware env = Inr (vars, container) \<Longrightarrow>
     serverConfig vars = CacheImpl \<lparr>namespace = ''server.config'', backend_arg = Some ''database''\<rparr>
   \<and> (\<forall>key args. instances container key = Some (CacheImpl args) \<and>
                   namespace args = ''server.config''
        \<longrightarrow> backend_arg args = Some ''database'')"
  by (auto simp: initContainerMiddleware_def then_await_def await_get_def LazyInitContainer_get_def
      init_settled_def new_LazyInitContainer_def Let_def split: if_splits option.splits)

lemma middleware_worker_env:
  "initContainerMiddleware worker_env = Inr (served_variables, served_container)"
  by (simp add: initContainerMiddleware_def then_await_def await_get_def LazyInitContainer_get_def
      init_settled_def new_LazyInitContainer_def Let_def worker_env_def
      served_variables_def served_container_def)

lemma step_variant: "variant (fst (store_step x op)) = variant (fst x)"
  by (cases x; cases op) (auto split: backend.splits)

lemma step_relational:
  "variant (fst x) = Relational \<Longrightarrow>
     objects (snd (store_step x op)) = objects (snd x) \<and>
     puts (snd (store_step x op)) = puts (snd x)"
  by (cases x; cases op) (auto simp: flush_def)

lemma run_relational:
  "variant (fst x) = Relational \<Longrightarrow>
     variant (fst (store_run x ops)) = Relational \<and>
     objects (snd (store_run x ops)) = objects (snd x) \<and>
     puts (snd (store_run x ops)) = puts (snd x)"
proof (induction ops arbitrary: x)
  case Nil
  then show ?case by (simp add: store_run_def)
next
  case (Cons op ops)
  have "variant (fst (store_step x op)) = Relational"
    using Cons.prems by (simp add: step_variant)
  from Cons.IH [OF this] step_relational [OF Cons.prems, of op]
  show ?case by (simp add: store_run_def)
qed

lemma database_arg_relational:
  "backend_arg args = Some ''database'' \<Longrightarrow> variant (new_CacheImpl d args) = Relational"
  by (simp add: new_CacheImpl_def CacheImpl_backend_def)

text \<open>
  C1. Whenever the request middleware completes, the server-config store it sets is
  constructed with namespace \<open>server.config\<close> and backend argument \<open>"database"\<close>, and so is
  every store of that namespace in its container; the scheduled job constructs its
  server-config store with the same arguments, and its two other stores have other
  namespaces. A store constructed with the argument \<open>"database"\<close> is bound to the relational
  backend whatever the default of the deployment, and no sequence of operations on it
  changes an object of the object store or writes one.
\<close>

theorem C1_server_config_relational:
  "(initContainerMiddleware env = Inr (vars, container) \<longrightarrow>
      serverConfig vars
        = CacheImpl \<lparr>namespace = ''server.config'', backend_arg = Some ''database''\<rparr> \<and>
      (\<forall>key args. instances container key = Some (CacheImpl args) \<and>
                    namespace args = ''server.config''
         \<longrightarrow> backend_arg args = Some ''database'')) \<and>
   fst (snd scheduled) = \<lparr>namespace = ''server.config'', backend_arg = Some ''database''\<rparr> \<and>
   namespace (fst scheduled) \<noteq> ''server.config'' \<and>
   namespace (snd (snd scheduled)) \<noteq> ''server.config'' \<and>
   (backend_arg args = Some ''database'' \<longrightarrow>
      variant (new_CacheImpl d args) = Relational \<and>
      objects (snd (store_run (new_CacheImpl d args, st) ops)) = objects st \<and>
      puts (snd (store_run (new_CacheImpl d args, st) ops)) = puts st)"
proof (intro conjI impI)
  assume m: "initContainerMiddleware env = Inr (vars, container)"
  from middleware_serverConfig [OF m]
  show "serverConfig vars
        = CacheImpl \<lparr>namespace = ''server.config'', backend_arg = Some ''database''\<rparr>"
    by simp
  from middleware_serverConfig [OF m]
  show "\<forall>key args. instances container key = Some (CacheImpl args) \<and>
                    namespace args = ''server.config''
         \<longrightarrow> backend_arg args = Some ''database''"
    by (rule conjunct2)
next
  show "fst (snd scheduled) = \<lparr>namespace = ''server.config'', backend_arg = Some ''database''\<rparr>"
    by (simp add: scheduled_def)
  show "namespace (fst scheduled) \<noteq> ''server.config''"
    by (simp add: scheduled_def)
  show "namespace (snd (snd scheduled)) \<noteq> ''server.config''"
    by (simp add: scheduled_def)
next
  assume a: "backend_arg args = Some ''database''"
  then have r: "variant (fst (new_CacheImpl d args, st)) = Relational"
    by (simp add: database_arg_relational)
  from a show "variant (new_CacheImpl d args) = Relational"
    by (rule database_arg_relational)
  from run_relational [OF r, of ops]
  show "objects (snd (store_run (new_CacheImpl d args, st) ops)) = objects st"
    by simp
  from run_relational [OF r, of ops]
  show "puts (snd (store_run (new_CacheImpl d args, st) ops)) = puts st"
    by simp
qed

theorem C1_server_config_relational_witness:
  "initContainerMiddleware worker_env = Inr (served_variables, served_container) \<and>
   serverConfig served_variables
     = CacheImpl \<lparr>namespace = ''server.config'', backend_arg = Some ''database''\<rparr> \<and>
   instances served_container ''serverConfig'' = Some (CacheImpl (fst (snd scheduled))) \<and>
   backend_arg (fst (snd scheduled)) = Some ''database'' \<and>
   variant (new_CacheImpl Object (fst (snd scheduled))) = Relational \<and>
   objects (snd (store_run (new_CacheImpl Object (fst (snd scheduled)), empty_storage) config_ops))
     = objects empty_storage \<and>
   puts (snd (store_run (new_CacheImpl Object (fst (snd scheduled)), empty_storage) config_ops))
     = puts empty_storage \<and>
   objects empty_storage = [] \<and> puts empty_storage = []"
proof -
  have a: "initContainerMiddleware worker_env = Inr (served_variables, served_container)"
    by (rule middleware_worker_env)
  have b: "backend_arg (fst (snd scheduled)) = Some ''database''"
    by (simp add: scheduled_def)
  have c: "instances served_container ''serverConfig'' = Some (CacheImpl (fst (snd scheduled)))"
    by (simp add: served_container_def scheduled_def)
  have d: "objects empty_storage = [] \<and> puts empty_storage = []"
    by (simp add: empty_storage_def)
  show ?thesis
    using a b c d
      C1_server_config_relational [where env = worker_env and vars = served_variables
        and container = served_container and args = "fst (snd scheduled)" and d = Object
        and st = empty_storage and ops = config_ops]
    by blast
qed

end
